theory Spec2Isabelle
  imports Complex_Main
begin

section \<open>Python values\<close>

text \<open>
  A Python \<open>str\<close> is a sequence of Unicode code points, a \<open>bytes\<close> object a sequence
  of octets. String literals of the source are ASCII and are written \<open>U ''...''\<close>.
\<close>

type_synonym ustr = "nat list"
type_synonym bytes = "char list"

definition U :: "string \<Rightarrow> ustr" where
  "U s = map of_char s"

text \<open>
  The values that \<open>json.loads\<close> produces and that \<open>json.dumps\<close> accepts. A dict is an
  association list with distinct keys in insertion order, looked up with \<open>map_of\<close>. Of a
  float only its being zero or not is ever tested (the values \<open>NaN\<close> and \<open>Infinity\<close>, which
  are truthy like every float but zero, have no representative).
\<close>

datatype json =
    JNull
  | JBool bool
  | JInt int
  | JFloat real
  | JStr ustr
  | JList "json list"
  | JDict "(ustr \<times> json) list"

text \<open>Truthiness, as \<open>if v:\<close> tests it.\<close>

fun truthy :: "json \<Rightarrow> bool" where
  "truthy JNull = False"
| "truthy (JBool b) = b"
| "truthy (JInt i) = (i \<noteq> 0)"
| "truthy (JFloat r) = (r \<noteq> 0)"
| "truthy (JStr s) = (s \<noteq> [])"
| "truthy (JList xs) = (xs \<noteq> [])"
| "truthy (JDict kvs) = (kvs \<noteq> [])"

fun is_str :: "json \<Rightarrow> bool" where
  "is_str (JStr s) = True"
| "is_str v = False"

text \<open>
  The exceptions that the provider meets and raises. The classes \<open>APIError\<close> and
  \<open>StreamingError\<close> come from \<open>msgmodel.exceptions\<close>, whose text is not part of the
  sources at hand; they are taken as the provider constructs them: \<open>APIError\<close> carries the
  message and the keyword arguments \<open>status_code\<close> and \<open>response_text\<close> (\<open>None\<close> when the
  call site does not pass them), and \<open>StreamingError e\<close> is
  \<open>StreamingError(f"Streaming interrupted: {e}")\<close>. \<open>RequestException\<close> stands for an
  exception raised by \<open>response.iter_lines()\<close>; \<open>json.loads\<close> raises \<open>JSONDecodeError\<close> on
  a text that is not a JSON document, and \<open>RecursionError\<close> or \<open>ValueError\<close> on a document
  nested too deeply or with an integer of too many digits.
\<close>

datatype exc =
    KeyError ustr
  | TypeError
  | UnicodeDecodeError
  | JSONDecodeError
  | RecursionError
  | ValueError
  | RequestException ustr
  | APIError ustr "int option" "ustr option"
  | StreamingError exc

text \<open>The class of an exception, which is what an \<open>except\<close> clause of a caller tests.\<close>

fun exc_kind :: "exc \<Rightarrow> string" where
  "exc_kind (KeyError k) = ''KeyError''"
| "exc_kind TypeError = ''TypeError''"
| "exc_kind UnicodeDecodeError = ''UnicodeDecodeError''"
| "exc_kind JSONDecodeError = ''JSONDecodeError''"
| "exc_kind RecursionError = ''RecursionError''"
| "exc_kind ValueError = ''ValueError''"
| "exc_kind (RequestException e) = ''RequestException''"
| "exc_kind (APIError m c t) = ''APIError''"
| "exc_kind (StreamingError e) = ''StreamingError''"

subsection \<open>\<open>str.startswith\<close>, \<open>str.strip\<close>, \<open>in\<close> on strings\<close>

definition startswith :: "ustr \<Rightarrow> ustr \<Rightarrow> bool" where
  "startswith s p = (take (length p) s = p)"

text \<open>The code points for which \<open>str.isspace\<close> holds; \<open>strip()\<close> removes them at both ends.\<close>

definition isspace :: "nat \<Rightarrow> bool" where
  "isspace c =
     ((0x09 \<le> c \<and> c \<le> 0x0D) \<or> (0x1C \<le> c \<and> c \<le> 0x20) \<or> c = 0x85 \<or> c = 0xA0
      \<or> c = 0x1680 \<or> (0x2000 \<le> c \<and> c \<le> 0x200A) \<or> c = 0x2028 \<or> c = 0x2029
      \<or> c = 0x202F \<or> c = 0x205F \<or> c = 0x3000)"

definition strip :: "ustr \<Rightarrow> ustr" where
  "strip s = rev (dropWhile isspace (rev (dropWhile isspace s)))"

fun str_contains :: "ustr \<Rightarrow> ustr \<Rightarrow> bool" where
  "str_contains [] p = (p = [])"
| "str_contains (c # s) p = (startswith (c # s) p \<or> str_contains s p)"

subsection \<open>\<open>bytes.decode("utf-8", errors=...)\<close>\<close>

datatype errors = Strict | Ignore

definition cont :: "nat \<Rightarrow> bool" where
  "cont b = (0x80 \<le> b \<and> b \<le> 0xBF)"

text \<open>The range of the second octet depends on the lead octet (no overlong forms, no
  surrogates, nothing above U+10FFFF).\<close>

definition second_ok :: "nat \<Rightarrow> nat \<Rightarrow> bool" where
  "second_ok b c =
     (if b = 0xE0 then 0xA0 \<le> c \<and> c \<le> 0xBF
      else if b = 0xED then 0x80 \<le> c \<and> c \<le> 0x9F
      else if b = 0xF0 then 0x90 \<le> c \<and> c \<le> 0xBF
      else if b = 0xF4 then 0x80 \<le> c \<and> c \<le> 0x8F
      else cont c)"

text \<open>
  One step of the decoder: the next code point and the octets after it, or \<open>None\<close> and the
  octets after the ill-formed subsequence (its longest well-formed prefix, at least one
  octet).
\<close>

fun utf8_next :: "nat list \<Rightarrow> nat option \<times> nat list" where
  "utf8_next [] = (None, [])"
| "utf8_next (b # bs) =
     (if b < 0x80 then (Some b, bs)
      else if 0xC2 \<le> b \<and> b \<le> 0xDF then
        (case bs of
           [] \<Rightarrow> (None, [])
         | c1 # r1 \<Rightarrow>
             if cont c1 then (Some ((b - 0xC0) * 64 + (c1 - 0x80)), r1) else (None, bs))
      else if 0xE0 \<le> b \<and> b \<le> 0xEF then
        (case bs of
           [] \<Rightarrow> (None, [])
         | c1 # r1 \<Rightarrow>
             if \<not> second_ok b c1 then (None, bs)
             else (case r1 of
                     [] \<Rightarrow> (None, [])
                   | c2 # r2 \<Rightarrow>
                       if cont c2
                       then (Some ((b - 0xE0) * 4096 + (c1 - 0x80) * 64 + (c2 - 0x80)), r2)
                       else (None, r1)))
      else if 0xF0 \<le> b \<and> b \<le> 0xF4 then
        (case bs of
           [] \<Rightarrow> (None, [])
         | c1 # r1 \<Rightarrow>
             if \<not> second_ok b c1 then (None, bs)
             else (case r1 of
                     [] \<Rightarrow> (None, [])
                   | c2 # r2 \<Rightarrow>
                       if \<not> cont c2 then (None, r1)
                       else (case r2 of
                               [] \<Rightarrow> (None, [])
                             | c3 # r3 \<Rightarrow>
                                 if cont c3
                                 then (Some ((b - 0xF0) * 262144 + (c1 - 0x80) * 4096
                                             + (c2 - 0x80) * 64 + (c3 - 0x80)), r3)
                                 else (None, r2))))
      else (None, bs))"

lemma utf8_next_shorter: "length (snd (utf8_next (b # bs))) < Suc (length bs)"
  by (simp split: list.split)

function utf8_dec :: "errors \<Rightarrow> nat list \<Rightarrow> exc + ustr" where
  "utf8_dec m [] = Inr []"
| "utf8_dec m (b # bs) =
     (case utf8_next (b # bs) of
        (Some cp, rest) \<Rightarrow>
          (case utf8_dec m rest of Inl e \<Rightarrow> Inl e | Inr s \<Rightarrow> Inr (cp # s))
      | (None, rest) \<Rightarrow>
          (case m of Strict \<Rightarrow> Inl UnicodeDecodeError | Ignore \<Rightarrow> utf8_dec m rest))"
  by pat_completeness auto
termination
  apply (relation "measure (\<lambda>(m, bs). length bs)")
  apply simp
  subgoal for m b bs
    using utf8_next_shorter [of b bs] by (cases "utf8_next (b # bs)") auto
  subgoal for m b bs
    using utf8_next_shorter [of b bs] by (cases "utf8_next (b # bs)") auto
  done

definition decode_utf8 :: "errors \<Rightarrow> bytes \<Rightarrow> exc + ustr" where
  "decode_utf8 m bs = utf8_dec m (map of_char bs)"

text \<open>
  \<open>str.encode("utf-8")\<close> on a text of Unicode scalar values (code points up to U+10FFFF
  that are not surrogates), as the standard defines the encoding form.
\<close>

definition scalar :: "nat \<Rightarrow> bool" where
  "scalar cp = (cp < 0x110000 \<and> \<not> (0xD800 \<le> cp \<and> cp \<le> 0xDFFF))"

definition utf8_enc :: "nat \<Rightarrow> nat list" where
  "utf8_enc cp =
     (if cp < 0x80 then [cp]
      else if cp < 0x800 then [0xC0 + cp div 64, 0x80 + cp mod 64]
      else if cp < 0x10000 then
        [0xE0 + cp div 4096, 0x80 + cp div 64 mod 64, 0x80 + cp mod 64]
      else
        [0xF0 + cp div 262144, 0x80 + cp div 4096 mod 64, 0x80 + cp div 64 mod 64,
         0x80 + cp mod 64])"

definition encode_utf8 :: "ustr \<Rightarrow> bytes" where
  "encode_utf8 s = map char_of (concat (map utf8_enc s))"

section \<open>The environment of the provider\<close>

text \<open>
  \<open>requests.post\<close> either raises a \<open>requests.RequestException\<close> (with the text \<open>str(e)\<close>)
  or returns a response. \<open>response.iter_lines()\<close> hands out the lines received, and may
  raise when the connection breaks; \<open>response.json()\<close> is \<open>None\<close> when the body is not
  JSON.
\<close>

datatype net_event = Line bytes | LineError ustr

record response =
  resp_ok :: bool
  resp_status_code :: int
  resp_text :: ustr
  resp_json :: "json option"
  resp_iter_lines :: "net_event list"

datatype post_outcome = Raised ustr | Returned response

record http_request =
  url :: ustr
  headers :: "(ustr \<times> ustr) list"
  data :: json
  stream_arg :: bool

text \<open>
  What the module takes from outside: the constant \<open>OPENAI_URL\<close> of \<open>msgmodel.config\<close>
  (not part of the sources at hand), the network behind \<open>requests.post\<close>, and the library
  functions \<open>base64.b64decode\<close> (\<open>None\<close> when it raises: every exception is caught alike
  where it is called) and \<open>json.loads\<close> (\<open>Inl e\<close> when it raises \<open>e\<close>).
\<close>

record ext =
  OPENAI_URL :: ustr
  post :: "http_request \<Rightarrow> post_outcome"
  b64decode :: "ustr \<Rightarrow> bytes option"
  json_loads :: "ustr \<Rightarrow> exc + json"

text \<open>
  \<open>OpenAIConfig\<close> (of \<open>msgmodel.config\<close>, not part of the sources at hand) with the four
  attributes the provider reads, whose values go into the payload as they are, and the
  provider object.
\<close>

record OpenAIConfig =
  model :: ustr
  max_tokens :: json
  temperature :: json
  top_p :: json

record OpenAIProvider =
  api_key :: ustr
  config :: OpenAIConfig

definition dict_get :: "('k \<times> 'v) list \<Rightarrow> 'k \<Rightarrow> 'v \<Rightarrow> 'v" where
  "dict_get d k dflt = (case map_of d k of None \<Rightarrow> dflt | Some v \<Rightarrow> v)"

section \<open>\<open>OpenAIProvider\<close>\<close>

definition MIME_TYPE_JSON :: ustr where
  "MIME_TYPE_JSON = U ''application/json''"

definition build_headers :: "OpenAIProvider \<Rightarrow> (ustr \<times> ustr) list" where
  "build_headers self =
     [(U ''Content-Type'', MIME_TYPE_JSON),
      (U ''Authorization'', U ''Bearer '' @ api_key self),
      (U ''X-OpenAI-No-Store'', U ''true'')]"

text \<open>
  \<open>_build_content\<close>. \<open>file_data\<close> is an optional dict with text values; the empty dict is
  falsy, and \<open>file_data["mime_type"]\<close> raises \<open>KeyError\<close> when the key is missing. The
  \<open>try\<close> around the two decoding calls turns every exception into the empty text.
  The code point 39 is the apostrophe, 10 the line feed.
\<close>

definition build_content ::
  "ext \<Rightarrow> ustr \<Rightarrow> (ustr \<times> ustr) list option \<Rightarrow> exc + json list" where
  "build_content x prompt file_data =
     (case
        (case file_data of
           None \<Rightarrow> Inr []
         | Some fd \<Rightarrow>
             if fd = [] then Inr []
             else
               (case map_of fd (U ''mime_type'') of
                  None \<Rightarrow> Inl (KeyError (U ''mime_type''))
                | Some mime_type \<Rightarrow>
                    (let encoded_data = dict_get fd (U ''data'') [];
                         filename = dict_get fd (U ''filename'') (U ''input.bin'')
                     in
                       if startswith mime_type (U ''image/'') then
                         Inr [JDict
                                [(U ''type'', JStr (U ''image_url'')),
                                 (U ''image_url'',
                                  JDict [(U ''url'',
                                          JStr (U ''data:'' @ mime_type @ U '';base64,''
                                                  @ encoded_data))])]]
                       else if startswith mime_type (U ''text/'') then
                         (let decoded_text =
                                (case b64decode x encoded_data of
                                   None \<Rightarrow> []
                                 | Some raw \<Rightarrow>
                                     (case decode_utf8 Ignore raw of
                                        Inl e \<Rightarrow> []
                                      | Inr t \<Rightarrow> t))
                          in
                            if strip decoded_text \<noteq> [] then
                              Inr [JDict
                                     [(U ''type'', JStr (U ''text'')),
                                      (U ''text'',
                                       JStr (U ''(Contents of '' @ filename @ U ''):''
                                               @ [10, 10] @ decoded_text))]]
                            else Inr [])
                       else
                         Inr [JDict
                                [(U ''type'', JStr (U ''text'')),
                                 (U ''text'',
                                  JStr (U ''[Note: A file named '' @ [39] @ filename @ [39]
                                          @ U '' with MIME type '' @ [39] @ mime_type @ [39]
                                          @ U '' was provided. You may not be able to read ''
                                          @ U ''it directly, but you ''
                                          @ U ''can still respond based on the description ''
                                          @ U ''and prompt.]''))]])))
      of
        Inl e \<Rightarrow> Inl e
      | Inr content \<Rightarrow>
          Inr (content @ [JDict [(U ''type'', JStr (U ''text'')), (U ''text'', JStr prompt)]]))"

text \<open>\<open>_build_payload\<close>: the system message comes first when the instruction is a
  non-empty text; \<open>"stream"\<close> is added only for a streaming call.\<close>

definition build_payload ::
  "ext \<Rightarrow> OpenAIProvider \<Rightarrow> ustr \<Rightarrow> ustr option \<Rightarrow> (ustr \<times> ustr) list option \<Rightarrow> bool
     \<Rightarrow> exc + (ustr \<times> json) list" where
  "build_payload x self prompt system_instruction file_data stream =
     (case build_content x prompt file_data of
        Inl e \<Rightarrow> Inl e
      | Inr content \<Rightarrow>
          (let messages =
                 (case system_instruction of
                    None \<Rightarrow> []
                  | Some si \<Rightarrow>
                      if si \<noteq> []
                      then [JDict [(U ''role'', JStr (U ''system'')), (U ''content'', JStr si)]]
                      else [])
                 @ [JDict [(U ''role'', JStr (U ''user'')), (U ''content'', JList content)]];
               payload =
                 [(U ''model'', JStr (model (config self))),
                  (U ''messages'', JList messages),
                  (U ''max_tokens'', max_tokens (config self)),
                  (U ''temperature'', temperature (config self)),
                  (U ''top_p'', top_p (config self))]
           in Inr (if stream then payload @ [(U ''stream'', JBool True)] else payload)))"

text \<open>
  \<open>query\<close>. The result is paired with the list of requests handed to \<open>requests.post\<close>;
  the payload stands for its \<open>json.dumps\<close> text.
\<close>

definition api_error_of :: "response \<Rightarrow> exc" where
  "api_error_of r =
     APIError (U ''OpenAI API error: '' @ resp_text r)
       (Some (resp_status_code r)) (Some (resp_text r))"

definition query ::
  "ext \<Rightarrow> OpenAIProvider \<Rightarrow> ustr \<Rightarrow> ustr option \<Rightarrow> (ustr \<times> ustr) list option
     \<Rightarrow> http_request list \<times> (exc + json)" where
  "query x self prompt system_instruction file_data =
     (case build_payload x self prompt system_instruction file_data False of
        Inl e \<Rightarrow> ([], Inl e)
      | Inr payload \<Rightarrow>
          (let hdrs = build_headers self;
               req = \<lparr>url = OPENAI_URL x, headers = hdrs, data = JDict payload,
                      stream_arg = False\<rparr>
           in
             (case post x req of
                Raised e \<Rightarrow> ([req], Inl (APIError (U ''Request failed: '' @ e) None None))
              | Returned r \<Rightarrow>
                  if \<not> resp_ok r then ([req], Inl (api_error_of r))
                  else
                    (case resp_json r of
                       None \<Rightarrow> ([req], Inl JSONDecodeError)
                     | Some j \<Rightarrow> ([req], Inr j)))))"

subsection \<open>The streaming loop\<close>

record loop_state =
  chunks_received :: nat
  yielded :: "json list"

text \<open>The inner loop \<open>for choice in chunk["choices"]\<close>.\<close>

fun choices_loop :: "json list \<Rightarrow> loop_state \<Rightarrow> loop_state" where
  "choices_loop [] s = s"
| "choices_loop (choice # rest) s =
     choices_loop rest
       (case choice of
          JDict c \<Rightarrow>
            (case dict_get c (U ''delta'') (JDict []) of
               JDict delta \<Rightarrow>
                 (let text = dict_get delta (U ''content'') (JStr [])
                  in
                    if truthy text
                    then s\<lparr>chunks_received := chunks_received s + 1,
                           yielded := yielded s @ [text]\<rparr>
                    else s)
             | _ \<Rightarrow> s)
        | _ \<Rightarrow> s)"

text \<open>
  \<open>if "choices" in chunk and isinstance(chunk["choices"], list)\<close> and the loop under it.
  On a dict, \<open>in\<close> tests the keys; on a list, the elements; on a text, the substrings (and
  \<open>chunk["choices"]\<close> then raises \<open>TypeError\<close>); on a number, a boolean or \<open>None\<close>, \<open>in\<close>
  itself raises \<open>TypeError\<close>.
\<close>

definition process_chunk :: "json \<Rightarrow> loop_state \<Rightarrow> exc + loop_state" where
  "process_chunk chunk s =
     (case chunk of
        JDict d \<Rightarrow>
          (case map_of d (U ''choices'') of
             Some (JList cs) \<Rightarrow> Inr (choices_loop cs s)
           | _ \<Rightarrow> Inr s)
      | JList xs \<Rightarrow> if JStr (U ''choices'') \<in> set xs then Inl TypeError else Inr s
      | JStr t \<Rightarrow> if str_contains t (U ''choices'') then Inl TypeError else Inr s
      | _ \<Rightarrow> Inl TypeError)"

text \<open>
  \<open>for line in response.iter_lines()\<close>: the state reached and the exception that left the
  loop, if any. \<open>json.JSONDecodeError\<close> is caught for the line; every other exception
  leaves the loop.
\<close>

fun lines_loop :: "ext \<Rightarrow> net_event list \<Rightarrow> loop_state \<Rightarrow> loop_state \<times> exc option" where
  "lines_loop x [] s = (s, None)"
| "lines_loop x (LineError e # rest) s = (s, Some (RequestException e))"
| "lines_loop x (Line line # rest) s =
     (if line \<noteq> [] then
        (case decode_utf8 Strict line of
           Inl e \<Rightarrow> (s, Some e)
         | Inr line_text \<Rightarrow>
             if startswith line_text (U ''data: '') then
               (let data = drop 6 line_text
                in
                  if data = U ''[DONE]'' then (s, None)
                  else
                    (case json_loads x data of
                       Inl e \<Rightarrow>
                         if e = JSONDecodeError then lines_loop x rest s else (s, Some e)
                     | Inr chunk \<Rightarrow>
                         (case process_chunk chunk s of
                            Inl e \<Rightarrow> (s, Some e)
                          | Inr s' \<Rightarrow> lines_loop x rest s')))
             else lines_loop x rest s)
      else lines_loop x rest s)"

definition no_chunks_message :: ustr where
  "no_chunks_message =
     U ''No text chunks extracted from streaming response. Response format may not match ''
       @ U ''OpenAI Chat Completions delta structure or stream may have ended prematurely.''"

text \<open>
  \<open>stream\<close>, run to its end: the requests sent, the chunks yielded in order, the messages
  given to \<open>logger.error\<close>, and the exception that ended the generator (\<open>None\<close> when it
  returned).
\<close>

record stream_run =
  sent :: "http_request list"
  chunks :: "json list"
  logged :: "ustr list"
  raised :: "exc option"

definition stream ::
  "ext \<Rightarrow> OpenAIProvider \<Rightarrow> ustr \<Rightarrow> ustr option \<Rightarrow> (ustr \<times> ustr) list option
     \<Rightarrow> stream_run" where
  "stream x self prompt system_instruction file_data =
     (case build_payload x self prompt system_instruction file_data True of
        Inl e \<Rightarrow> \<lparr>sent = [], chunks = [], logged = [], raised = Some e\<rparr>
      | Inr payload \<Rightarrow>
          (let hdrs = build_headers self;
               req = \<lparr>url = OPENAI_URL x, headers = hdrs, data = JDict payload,
                      stream_arg = True\<rparr>
           in
             (case post x req of
                Raised e \<Rightarrow>
                  \<lparr>sent = [req], chunks = [], logged = [],
                   raised = Some (APIError (U ''Request failed: '' @ e) None None)\<rparr>
              | Returned r \<Rightarrow>
                  if \<not> resp_ok r then
                    \<lparr>sent = [req], chunks = [], logged = [], raised = Some (api_error_of r)\<rparr>
                  else
                    (case lines_loop x (resp_iter_lines r)
                            \<lparr>chunks_received = 0, yielded = []\<rparr> of
                       (s, Some e) \<Rightarrow>
                         \<lparr>sent = [req], chunks = yielded s, logged = [],
                          raised = Some (StreamingError e)\<rparr>
                     | (s, None) \<Rightarrow>
                         \<lparr>sent = [req], chunks = yielded s,
                          logged = (if chunks_received s = 0 then [no_chunks_message] else []),
                          raised = None\<rparr>))))"

subsection \<open>\<open>extract_text\<close>\<close>

fun extract_choices :: "json list \<Rightarrow> json" where
  "extract_choices [] = JStr []"
| "extract_choices (choice # rest) =
     (case choice of
        JDict c \<Rightarrow>
          (case dict_get c (U ''message'') (JDict []) of
             JDict message \<Rightarrow>
               (let content = dict_get message (U ''content'') (JStr [])
                in if truthy content then content else extract_choices rest)
           | _ \<Rightarrow> extract_choices rest)
      | _ \<Rightarrow> extract_choices rest)"

definition extract_text :: "(ustr \<times> json) list \<Rightarrow> json" where
  "extract_text response =
     (case map_of response (U ''choices'') of
        Some (JList cs) \<Rightarrow> extract_choices cs
      | _ \<Rightarrow> JStr [])"

section \<open>Example inputs\<close>

definition gpt4o_provider :: OpenAIProvider where
  "gpt4o_provider =
     \<lparr>api_key = U ''sk-test'',
      config = \<lparr>model = U ''gpt-4o'', max_tokens = JInt 2000, temperature = JFloat 0.7,
                top_p = JFloat 1\<rparr>\<rparr>"

definition delta_chunk :: "ustr \<Rightarrow> json" where
  "delta_chunk t =
     JDict [(U ''choices'', JList [JDict [(U ''delta'', JDict [(U ''content'', JStr t)])]])]"

text \<open>
  Two event payloads and \<open>json.loads\<close> on them: the document
  \<open>{"choices":[{"delta":{"content":"Hello"}}]}\<close> and the document \<open>42\<close>. Every other text
  used below (\<open>not json\<close>) is not a JSON document.
\<close>

definition quoted :: "bytes \<Rightarrow> bytes" where
  "quoted s = CHR 0x22 # s @ [CHR 0x22]"

definition hello_json :: bytes where
  "hello_json =
     ''{'' @ quoted ''choices'' @ '':[{'' @ quoted ''delta'' @ '':{'' @ quoted ''content''
       @ '':'' @ quoted ''Hello'' @ ''}}]}''"

definition sample_loads :: "ustr \<Rightarrow> exc + json" where
  "sample_loads s =
     (if s = map of_char hello_json then Inr (delta_chunk (U ''Hello''))
      else if s = U ''42'' then Inr (JInt 42)
      else Inl JSONDecodeError)"

text \<open>A network that answers every request with the given outcome, and a base64 decoder
  that returns the given octets.\<close>

definition ext_of :: "post_outcome \<Rightarrow> bytes option \<Rightarrow> ext" where
  "ext_of outcome raw =
     \<lparr>OPENAI_URL = U ''https://api.openai.com/v1/chat/completions'',
      post = (\<lambda>req. outcome), b64decode = (\<lambda>s. raw), json_loads = sample_loads\<rparr>"

definition streaming_response :: "net_event list \<Rightarrow> response" where
  "streaming_response evs =
     \<lparr>resp_ok = True, resp_status_code = 200, resp_text = [], resp_json = None,
      resp_iter_lines = evs\<rparr>"

definition error_response :: "int \<Rightarrow> ustr \<Rightarrow> response" where
  "error_response code body =
     \<lparr>resp_ok = False, resp_status_code = code, resp_text = body, resp_json = None,
      resp_iter_lines = []\<rparr>"

text \<open>
  \<open>base64.b64decode\<close> on the payloads used below: \<open>/2hp\<close> is \<open>ff 68 69\<close>, \<open>Yf9iw6k=\<close> is
  \<open>61 ff 62 c3 a9\<close>, \<open>Y2Fmw6kg4oKs\<close> is \<open>63 61 66 c3 a9 20 e2 82 ac\<close> (the text \<open>caf\<close>, U+00E9, a space, U+20AC),
  \<open>/yD+\<close> is \<open>ff 20 fe\<close>, \<open>IAoJ\<close> is a space, a line feed and a tab, and \<open>abc\<close> is
  rejected for its padding. No other payload is decoded below.
\<close>

definition sample_b64decode :: "ustr \<Rightarrow> bytes option" where
  "sample_b64decode s =
     (if s = U ''/2hp'' then Some [CHR 0xFF, CHR ''h'', CHR ''i'']
      else if s = U ''Yf9iw6k='' then Some [CHR ''a'', CHR 0xFF, CHR ''b'', CHR 0xC3, CHR 0xA9]
      else if s = U ''Y2Fmw6kg4oKs'' then
        Some [CHR ''c'', CHR ''a'', CHR ''f'', CHR 0xC3, CHR 0xA9, CHR '' '',
              CHR 0xE2, CHR 0x82, CHR 0xAC]
      else if s = U ''/yD+'' then Some [CHR 0xFF, CHR '' '', CHR 0xFE]
      else if s = U ''IAoJ'' then Some [CHR '' '', CHR 0x0A, CHR 0x09]
      else None)"

definition file_env :: ext where
  "file_env =
     \<lparr>OPENAI_URL = U ''https://api.openai.com/v1/chat/completions'',
      post = (\<lambda>req. Raised []), b64decode = sample_b64decode, json_loads = sample_loads\<rparr>"

text \<open>Attachments: a PDF, a PNG image, and text files with the payloads above.\<close>

definition pdf_file :: "(ustr \<times> ustr) list" where
  "pdf_file =
     [(U ''mime_type'', U ''application/pdf''), (U ''data'', U ''JVBERi0=''),
      (U ''filename'', U ''report.pdf'')]"

definition png_file :: "(ustr \<times> ustr) list" where
  "png_file = [(U ''mime_type'', U ''image/png''), (U ''data'', U ''iVBORw0='')]"

definition text_file :: "ustr \<Rightarrow> (ustr \<times> ustr) list" where
  "text_file payload =
     [(U ''mime_type'', U ''text/plain''), (U ''data'', payload),
      (U ''filename'', U ''notes.txt'')]"

section \<open>Properties\<close>

lemma U_simps: "U [] = []" "U (c # s) = of_char c # U s"
  by (simp_all add: U_def)

subsection \<open>Library facts\<close>

lemma text_not_image: "startswith m (U ''text/'') \<Longrightarrow> \<not> startswith m (U ''image/'')"
  by (cases m) (simp_all add: startswith_def U_simps)

lemma strip_empty_iff: "strip t = [] \<longleftrightarrow> (\<forall>c \<in> set t. isspace c)"
proof
  assume "strip t = []"
  then have a: "\<forall>c \<in> set (dropWhile isspace t). isspace c"
    by (simp add: strip_def dropWhile_eq_Nil_conv)
  have "dropWhile isspace t = []"
  proof (rule ccontr)
    assume n: "dropWhile isspace t \<noteq> []"
    then have "\<not> isspace (hd (dropWhile isspace t))"
      by (rule hd_dropWhile)
    moreover have "hd (dropWhile isspace t) \<in> set (dropWhile isspace t)"
      using n by simp
    ultimately show False using a by blast
  qed
  then show "\<forall>c \<in> set t. isspace c"
    by (simp add: dropWhile_eq_Nil_conv)
next
  assume "\<forall>c \<in> set t. isspace c"
  then show "strip t = []"
    by (auto simp: strip_def dest: set_dropWhileD)
qed

lemma utf8_dec_ignore_total: "\<exists>t. utf8_dec Ignore bs = Inr t"
proof (induction bs rule: length_induct)
  case (1 bs)
  show ?case
  proof (cases bs)
    case Nil
    then show ?thesis by simp
  next
    case (Cons b rest)
    obtain r tl where n: "utf8_next (b # rest) = (r, tl)"
      by (cases "utf8_next (b # rest)")
    have "length tl < length bs"
      using utf8_next_shorter [of b rest] n Cons by simp
    with 1 obtain t where t: "utf8_dec Ignore tl = Inr t"
      by blast
    show ?thesis
    proof (cases r)
      case None
      then show ?thesis
        unfolding Cons utf8_dec.simps n using t by simp
    next
      case (Some cp)
      then show ?thesis
        unfolding Cons utf8_dec.simps n using t by simp
    qed
  qed
qed



lemma decode_ignore_total: "\<exists>t. decode_utf8 Ignore raw = Inr t"
  using utf8_dec_ignore_total [of "map of_char raw"] by (simp add: decode_utf8_def)

lemma invalid_lead_dropped:
  assumes "(0x80 \<le> (of_char b :: nat) \<and> (of_char b :: nat) \<le> 0xC1) \<or> 0xF5 \<le> (of_char b :: nat)"
  shows "decode_utf8 Ignore (b # bs) = decode_utf8 Ignore bs"
proof -
  have "utf8_next (of_char b # map of_char bs) = (None, map of_char bs)"
    using assms by auto
  then show ?thesis
    unfolding decode_utf8_def list.map utf8_dec.simps by simp
qed

subsection \<open>Decoding what was encoded\<close>


lemma split64:
  obtains q r where "(n::nat) = 64 * q + r" and "r < 64" and "n div 64 = q" and "n mod 64 = r"
  by (rule that [of "n div 64" "n mod 64"]) simp_all

lemma div4096: "(n::nat) div 4096 = n div 64 div 64"
  by (simp add: div_mult2_eq)

lemma div262144: "(n::nat) div 262144 = n div 64 div 64 div 64"
  by (simp add: div_mult2_eq)


lemma next2_digits:
  assumes "2 \<le> a" and "a \<le> 31" and "c < 64"
  shows "utf8_next ((0xC0 + a) # (0x80 + c) # rest) = (Some (a * 64 + c), rest)"
  using assms by (simp add: cont_def)



lemma next3_digits:
  assumes "a \<le> 15" and "b < 64" and "c < 64"
    and "a = 0 \<Longrightarrow> 32 \<le> b" and "a = 13 \<Longrightarrow> b \<le> 31"
  shows "utf8_next ((0xE0 + a) # (0x80 + b) # (0x80 + c) # rest)
           = (Some (a * 4096 + b * 64 + c), rest)"
proof -
  have s: "second_ok (0xE0 + a) (0x80 + b)"
    using assms by (auto simp: second_ok_def cont_def)
  have c: "cont (0x80 + c)"
    using assms by (simp add: cont_def)
  have l: "\<not> 0xE0 + a < (0x80::nat)" "\<not> (0xC2 \<le> 0xE0 + a \<and> 0xE0 + a \<le> (0xDF::nat))"
    "0xE0 \<le> 0xE0 + a \<and> 0xE0 + a \<le> (0xEF::nat)"
    using assms by simp_all
  show ?thesis
    unfolding utf8_next.simps using s c l by simp
qed

lemma next4_digits:
  assumes "a \<le> 4" and "b < 64" and "c < 64" and "d < 64"
    and "a = 0 \<Longrightarrow> 16 \<le> b" and "a = 4 \<Longrightarrow> b \<le> 15"
  shows "utf8_next ((0xF0 + a) # (0x80 + b) # (0x80 + c) # (0x80 + d) # rest)
           = (Some (a * 262144 + b * 4096 + c * 64 + d), rest)"
proof -
  have s: "second_ok (0xF0 + a) (0x80 + b)"
    using assms by (auto simp: second_ok_def cont_def)
  have c: "cont (0x80 + c)" "cont (0x80 + d)"
    using assms by (simp_all add: cont_def)
  have l: "\<not> 0xF0 + a < (0x80::nat)" "\<not> (0xC2 \<le> 0xF0 + a \<and> 0xF0 + a \<le> (0xDF::nat))"
    "\<not> (0xE0 \<le> 0xF0 + a \<and> 0xF0 + a \<le> (0xEF::nat))"
    "0xF0 \<le> 0xF0 + a \<and> 0xF0 + a \<le> (0xF4::nat)"
    using assms by simp_all
  show ?thesis
    unfolding utf8_next.simps using s c l by simp
qed


lemma utf8_next_enc:
  assumes "scalar cp"
  shows "utf8_next (utf8_enc cp @ rest) = (Some cp, rest)"
proof -
  obtain q r where q: "cp = 64 * q + r" "r < 64" and dq: "cp div 64 = q" "cp mod 64 = r"
    by (rule split64)
  obtain p b where p: "q = 64 * p + b" "b < 64" and dp: "q div 64 = p" "q mod 64 = b"
    by (rule split64)
  obtain a c where a: "p = 64 * a + c" "c < 64" and da: "p div 64 = a" "p mod 64 = c"
    by (rule split64)
  have d2: "cp div 4096 = p" "cp div 64 mod 64 = b"
    using dq dp by (simp_all add: div4096)
  have d3: "cp div 262144 = a" "cp div 4096 mod 64 = c"
    using dq dp da by (simp_all add: div262144 div4096)
  consider "cp < 0x80" | "0x80 \<le> cp \<and> cp < 0x800" | "0x800 \<le> cp \<and> cp < 0x10000"
    | "0x10000 \<le> cp"
    by linarith
  then show ?thesis
  proof cases
    case 1
    then show ?thesis by (simp add: utf8_enc_def)
  next
    case 2
    have e: "utf8_enc cp = [0xC0 + q, 0x80 + r]"
      using 2 dq by (simp add: utf8_enc_def)
    have "2 \<le> q" "q \<le> 31"
      using 2 q by linarith+
    from next2_digits [OF this q(2), of rest] show ?thesis
      using e q(1) by (simp add: ac_simps)
  next
    case 3
    have e: "utf8_enc cp = [0xE0 + p, 0x80 + b, 0x80 + r]"
      using 3 dq d2 by (simp add: utf8_enc_def)
    have v: "cp = 4096 * p + 64 * b + r"
      using q(1) p(1) by simp
    have s: "\<not> (0xD800 \<le> cp \<and> cp \<le> 0xDFFF)"
      using assms by (simp add: scalar_def)
    have "p \<le> 15" "p = 0 \<Longrightarrow> 32 \<le> b" "p = 13 \<Longrightarrow> b \<le> 31"
      using 3 v s q(2) p(2) by linarith+
    from next3_digits [OF this(1) p(2) q(2) this(2,3), of rest] show ?thesis
      using e v by (simp add: ac_simps)
  next
    case 4
    have e: "utf8_enc cp = [0xF0 + a, 0x80 + c, 0x80 + b, 0x80 + r]"
      using 4 dq d2 d3 by (simp add: utf8_enc_def)
    have v: "cp = 262144 * a + 4096 * c + 64 * b + r"
      using q(1) p(1) a(1) by simp
    have s: "cp < 0x110000"
      using assms by (simp add: scalar_def)
    have "a \<le> 4" "a = 0 \<Longrightarrow> 16 \<le> c" "a = 4 \<Longrightarrow> c \<le> 15"
      using 4 v s q(2) p(2) a(2) by linarith+
    from next4_digits [OF this(1) a(2) p(2) q(2) this(2,3), of rest] show ?thesis
      using e v by (simp add: ac_simps)
  qed
qed


lemma utf8_dec_unfold:
  "bs \<noteq> [] \<Longrightarrow>
   utf8_dec m bs =
     (case utf8_next bs of
        (Some cp, rest) \<Rightarrow>
          (case utf8_dec m rest of Inl e \<Rightarrow> Inl e | Inr s \<Rightarrow> Inr (cp # s))
      | (None, rest) \<Rightarrow>
          (case m of Strict \<Rightarrow> Inl UnicodeDecodeError | Ignore \<Rightarrow> utf8_dec m rest))"
  by (cases bs) (simp_all del: utf8_next.simps)

lemma utf8_enc_nonempty: "utf8_enc cp \<noteq> []"
  by (simp add: utf8_enc_def)

lemma utf8_dec_enc:
  assumes "\<forall>cp \<in> set s. scalar cp"
  shows "utf8_dec m (concat (map utf8_enc s) @ rest)
           = (case utf8_dec m rest of Inl e \<Rightarrow> Inl e | Inr t \<Rightarrow> Inr (s @ t))"
  using assms
proof (induction s)
  case Nil
  show ?case by (cases "utf8_dec m rest") simp_all
next
  case (Cons cp s)
  have n: "utf8_next (utf8_enc cp @ concat (map utf8_enc s) @ rest)
             = (Some cp, concat (map utf8_enc s) @ rest)"
    using Cons.prems by (simp add: utf8_next_enc)
  have "utf8_dec m (utf8_enc cp @ concat (map utf8_enc s) @ rest)
          = (case utf8_dec m (concat (map utf8_enc s) @ rest) of
               Inl e \<Rightarrow> Inl e | Inr t \<Rightarrow> Inr (cp # t))"
    using utf8_enc_nonempty [of cp]
    by (subst utf8_dec_unfold) (simp_all add: n)
  also have "\<dots> = (case utf8_dec m rest of Inl e \<Rightarrow> Inl e | Inr t \<Rightarrow> Inr ((cp # s) @ t))"
    using Cons by (cases "utf8_dec m rest") simp_all
  finally show ?case by simp
qed


lemma utf8_enc_octets: "scalar cp \<Longrightarrow> \<forall>n \<in> set (utf8_enc cp). n < 256"
proof -
  assume s: "scalar cp"
  obtain q r where q: "cp = 64 * q + r" "r < 64" and dq: "cp div 64 = q" "cp mod 64 = r"
    by (rule split64)
  obtain p b where p: "q = 64 * p + b" "b < 64" and dp: "q div 64 = p" "q mod 64 = b"
    by (rule split64)
  obtain a c where a: "p = 64 * a + c" "c < 64" and da: "p div 64 = a" "p mod 64 = c"
    by (rule split64)
  have d2: "cp div 4096 = p" "cp div 64 mod 64 = b"
    using dq dp by (simp_all add: div4096)
  have d3: "cp div 262144 = a" "cp div 4096 mod 64 = c"
    using dq dp da by (simp_all add: div262144 div4096)
  have v: "cp = 262144 * a + 4096 * c + 64 * b + r" "cp = 4096 * p + 64 * b + r"
    using q(1) p(1) a(1) by simp_all
  have l: "cp < 0x110000"
    using s by (simp add: scalar_def)
  have "cp < 0x800 \<Longrightarrow> q \<le> 31" "cp < 0x10000 \<Longrightarrow> p \<le> 15" "a \<le> 4"
    using v q l by linarith+
  then show ?thesis
    using q(2) p(2) a(2) by (auto simp: utf8_enc_def dq d2 d3)
qed

lemma of_char_char_of_octets:
  "\<forall>n \<in> set xs. n < 256 \<Longrightarrow> map (\<lambda>n. of_char (char_of n)) xs = (xs :: nat list)"
  by (induction xs) simp_all

lemma of_char_encode_utf8:
  assumes "\<forall>cp \<in> set s. scalar cp"
  shows "map of_char (encode_utf8 s) = concat (map utf8_enc s)"
proof -
  have "\<forall>n \<in> set (concat (map utf8_enc s)). n < 256"
    using assms utf8_enc_octets by auto
  then show ?thesis
    using of_char_char_of_octets by (simp add: encode_utf8_def comp_def)
qed

lemma decode_encode_utf8:
  assumes "\<forall>cp \<in> set s. scalar cp"
  shows "decode_utf8 m (encode_utf8 s) = Inr s"
  using utf8_dec_enc [OF assms, of m "[]"]
  by (simp add: decode_utf8_def of_char_encode_utf8 [OF assms])


subsection \<open>The branches of \<open>_build_content\<close>\<close>

lemma build_content_image:
  assumes "fd \<noteq> []" and "map_of fd (U ''mime_type'') = Some mime"
    and "startswith mime (U ''image/'')"
  shows "build_content x prompt (Some fd)
           = Inr [JDict [(U ''type'', JStr (U ''image_url'')),
                         (U ''image_url'',
                          JDict [(U ''url'',
                                  JStr (U ''data:'' @ mime @ U '';base64,''
                                          @ dict_get fd (U ''data'') []))])],
                  JDict [(U ''type'', JStr (U ''text'')), (U ''text'', JStr prompt)]]"
  using assms by (simp add: build_content_def Let_def)

lemma build_content_text:
  assumes "fd \<noteq> []" and "map_of fd (U ''mime_type'') = Some mime"
    and "startswith mime (U ''text/'')"
  shows "build_content x prompt (Some fd)
           = Inr ((let decoded_text =
                         (case b64decode x (dict_get fd (U ''data'') []) of
                            None \<Rightarrow> []
                          | Some raw \<Rightarrow> (case decode_utf8 Ignore raw of Inl e \<Rightarrow> [] | Inr t \<Rightarrow> t))
                   in if strip decoded_text \<noteq> []
                      then [JDict [(U ''type'', JStr (U ''text'')),
                                   (U ''text'',
                                    JStr (U ''(Contents of ''
                                            @ dict_get fd (U ''filename'') (U ''input.bin'')
                                            @ U ''):'' @ [10, 10] @ decoded_text))]]
                      else [])
                  @ [JDict [(U ''type'', JStr (U ''text'')), (U ''text'', JStr prompt)]])"
  using assms text_not_image [of mime] by (simp add: build_content_def Let_def)

lemma build_content_other:
  assumes "fd \<noteq> []" and "map_of fd (U ''mime_type'') = Some mime"
    and "\<not> startswith mime (U ''image/'')" and "\<not> startswith mime (U ''text/'')"
  shows "build_content x prompt (Some fd)
           = Inr [JDict [(U ''type'', JStr (U ''text'')),
                         (U ''text'',
                          JStr (U ''[Note: A file named '' @ [39]
                                  @ dict_get fd (U ''filename'') (U ''input.bin'') @ [39]
                                  @ U '' with MIME type '' @ [39] @ mime @ [39]
                                  @ U '' was provided. You may not be able to read ''
                                  @ U ''it directly, but you ''
                                  @ U ''can still respond based on the description ''
                                  @ U ''and prompt.]''))],
                  JDict [(U ''type'', JStr (U ''text'')), (U ''text'', JStr prompt)]]"
  using assms by (simp add: build_content_def Let_def)

lemmas file_eval =
  file_env_def sample_b64decode_def text_file_def png_file_def pdf_file_def dict_get_def
  startswith_def decode_utf8_def isspace_def U_simps

subsection \<open>Facts about the streaming loop\<close>

lemma choices_loop_count:
  "chunks_received s = length (yielded s) \<Longrightarrow>
   chunks_received (choices_loop cs s) = length (yielded (choices_loop cs s))"
proof (induction cs arbitrary: s)
  case Nil
  then show ?case by simp
next
  case (Cons choice cs)
  show ?case
    unfolding choices_loop.simps
    by (rule Cons.IH) (use Cons.prems in \<open>auto simp: Let_def split: json.splits\<close>)
qed

lemma process_chunk_count:
  "chunks_received s = length (yielded s) \<Longrightarrow> process_chunk chunk s = Inr s' \<Longrightarrow>
   chunks_received s' = length (yielded s')"
  by (auto simp: process_chunk_def choices_loop_count split: json.splits option.splits if_splits)

lemma lines_loop_count:
  "chunks_received s = length (yielded s) \<Longrightarrow> lines_loop x evs s = (s', e) \<Longrightarrow>
   chunks_received s' = length (yielded s')"
proof (induction evs arbitrary: s)
  case Nil
  then show ?case by simp
next
  case (Cons ev evs)
  show ?case
  proof (cases ev)
    case (LineError m)
    with Cons.prems show ?thesis by simp
  next
    case (Line line)
    show ?thesis
      using Cons.prems Cons.IH process_chunk_count unfolding Line lines_loop.simps
      by (auto simp: Let_def split: if_splits sum.splits option.splits)
  qed
qed


lemma stream_cases:
  assumes "build_payload x self prompt si fd True = Inr pl"
    and "post x \<lparr>url = OPENAI_URL x, headers = build_headers self, data = JDict pl,
                   stream_arg = True\<rparr> = Returned r"
    and "resp_ok r"
    and "lines_loop x (resp_iter_lines r) \<lparr>chunks_received = 0, yielded = []\<rparr> = (s, e)"
  shows "chunks (stream x self prompt si fd) = yielded s"
    and "raised (stream x self prompt si fd) = map_option StreamingError e"
    and "logged (stream x self prompt si fd)
           = (if e = None \<and> chunks_received s = 0 then [no_chunks_message] else [])"
  using assms by (cases e; simp add: stream_def Let_def)+

lemma gpt4o_payload_builds:
  "\<exists>pl. build_payload x gpt4o_provider prompt None None st = Inr pl"
  by (simp add: build_payload_def build_content_def Let_def)

lemmas stream_eval =
  stream_def build_payload_def build_content_def ext_of_def streaming_response_def
  error_response_def decode_utf8_def startswith_def process_chunk_def delta_chunk_def
  dict_get_def sample_loads_def hello_json_def quoted_def U_simps Let_def

subsection \<open>Headers\<close>

lemma no_store_in_build_headers:
  "map_of (build_headers self) (U ''X-OpenAI-No-Store'') = Some (U ''true'')"
  by (simp add: build_headers_def U_simps)

text \<open>
  Claim C8. Every request that \<open>query\<close> or \<open>stream\<close> hands to \<open>requests.post\<close> carries the
  header \<open>X-OpenAI-No-Store\<close> with the value \<open>"true"\<close>, whatever the API key, the
  configuration, the prompt, the system instruction, the file data and the environment
  are; and whenever the payload can be built, exactly one request is sent.
\<close>

theorem no_store_header_on_every_request:
  "(\<forall>req \<in> set (fst (query x self prompt si fd)).
      map_of (headers req) (U ''X-OpenAI-No-Store'') = Some (U ''true''))
   \<and> (\<forall>req \<in> set (sent (stream x self prompt si fd)).
      map_of (headers req) (U ''X-OpenAI-No-Store'') = Some (U ''true''))
   \<and> (\<forall>pl. build_payload x self prompt si fd False = Inr pl \<longrightarrow>
         length (fst (query x self prompt si fd)) = 1)
   \<and> (\<forall>pl. build_payload x self prompt si fd True = Inr pl \<longrightarrow>
         length (sent (stream x self prompt si fd)) = 1)"
  using no_store_in_build_headers [of self]
  by (auto simp: query_def stream_def Let_def
           split: sum.splits post_outcome.splits option.splits prod.splits)

theorem no_store_header_on_every_request_witness:
  "map (\<lambda>req. map_of (headers req) (U ''X-OpenAI-No-Store''))
     (fst (query (ext_of (Raised (U ''refused'')) None) gpt4o_provider
             (U ''hi'') None None)) = [Some (U ''true'')]
   \<and> map (\<lambda>req. map_of (headers req) (U ''X-OpenAI-No-Store''))
       (sent (stream (ext_of (Raised (U ''refused'')) None) gpt4o_provider
                (U ''hi'') None None)) = [Some (U ''true'')]"
proof -
  let ?x = "ext_of (Raised (U ''refused'')) None"
  have q: "length (fst (query ?x gpt4o_provider (U ''hi'') None None)) = 1"
    and s: "length (sent (stream ?x gpt4o_provider (U ''hi'') None None)) = 1"
    using no_store_header_on_every_request [of ?x gpt4o_provider "U ''hi''" None None]
    by (simp_all add: build_payload_def build_content_def Let_def)
  from q obtain r where r: "fst (query ?x gpt4o_provider (U ''hi'') None None) = [r]"
    by (cases "fst (query ?x gpt4o_provider (U ''hi'') None None)") auto
  from s obtain r' where r': "sent (stream ?x gpt4o_provider (U ''hi'') None None) = [r']"
    by (cases "sent (stream ?x gpt4o_provider (U ''hi'') None None)") auto
  show ?thesis
    using no_store_header_on_every_request [of ?x gpt4o_provider "U ''hi''" None None] r r'
    by simp
qed

subsection \<open>Payload\<close>

text \<open>
  Claim C1. The claim asks that the token limit of a GPT-4o-class model be sent as
  \<open>max_completion_tokens\<close>. \<open>_build_payload\<close> does not look at the model name: for the
  configuration of the demo (\<open>model="gpt-4o"\<close>, \<open>max_tokens=2000\<close>) the payload carries the
  key \<open>max_tokens\<close> and no key \<open>max_completion_tokens\<close>.
\<close>

theorem gpt4o_payload_uses_max_tokens:
  "\<exists>pl. build_payload x gpt4o_provider prompt None None False = Inr pl
     \<and> map_of pl (U ''model'') = Some (JStr (U ''gpt-4o''))
     \<and> map_of pl (U ''max_tokens'') = Some (JInt 2000)
     \<and> map_of pl (U ''max_completion_tokens'') = None"
  by (simp add: build_payload_def build_content_def gpt4o_provider_def U_simps Let_def)

subsection \<open>Text extraction\<close>

text \<open>
  Claim C6. The claim asks that \<open>extract_text\<close> return a string for every response
  dictionary. A content field that is truthy but not a string is returned as it is: for
  \<open>{"choices": [{"message": {"content": 42}}]}\<close> the result is the number 42.
\<close>

theorem extract_text_returns_number:
  "extract_text
     [(U ''choices'', JList [JDict [(U ''message'', JDict [(U ''content'', JInt 42)])]])]
   = JInt 42 \<and> \<not> is_str (JInt 42)"
  by (simp add: extract_text_def dict_get_def)

subsection \<open>Content blocks\<close>

text \<open>
  Claim C5. Whenever \<open>_build_content\<close> returns, the content list is not empty and its
  last element is the block \<open>{"type": "text", "text": prompt}\<close>; it returns for every call
  without attachment, with an empty dict, or with a dict that has the key \<open>mime_type\<close>;
  and without attachment that block is the whole list.
\<close>

theorem prompt_block_is_last:
  "(\<forall>content. build_content x prompt file_data = Inr content \<longrightarrow>
       content \<noteq> []
       \<and> last content = JDict [(U ''type'', JStr (U ''text'')), (U ''text'', JStr prompt)])
   \<and> ((\<forall>fd. file_data = Some fd \<longrightarrow> fd = [] \<or> map_of fd (U ''mime_type'') \<noteq> None) \<longrightarrow>
        (\<exists>content. build_content x prompt file_data = Inr content))
   \<and> build_content x prompt None
       = Inr [JDict [(U ''type'', JStr (U ''text'')), (U ''text'', JStr prompt)]]"
  by (auto simp: build_content_def Let_def split: option.splits if_splits)

theorem prompt_block_is_last_witness:
  "build_content file_env (U ''Summarize'') (Some pdf_file)
     = Inr [JDict [(U ''type'', JStr (U ''text'')),
                   (U ''text'',
                    JStr (U ''[Note: A file named '' @ [39] @ U ''report.pdf'' @ [39]
                            @ U '' with MIME type '' @ [39] @ U ''application/pdf'' @ [39]
                            @ U '' was provided. You may not be able to read it directly, ''
                            @ U ''but you can still respond based on the description and ''
                            @ U ''prompt.]''))],
            JDict [(U ''type'', JStr (U ''text'')), (U ''text'', JStr (U ''Summarize''))]]
   \<and> last (projr (build_content file_env (U ''Summarize'') (Some pdf_file)))
     = JDict [(U ''type'', JStr (U ''text'')), (U ''text'', JStr (U ''Summarize''))]
   \<and> build_content file_env (U ''Hello'') None
     = Inr [JDict [(U ''type'', JStr (U ''text'')), (U ''text'', JStr (U ''Hello''))]]"
proof -
  have e: "build_content file_env (U ''Summarize'') (Some pdf_file)
     = Inr [JDict [(U ''type'', JStr (U ''text'')),
                   (U ''text'',
                    JStr (U ''[Note: A file named '' @ [39] @ U ''report.pdf'' @ [39]
                            @ U '' with MIME type '' @ [39] @ U ''application/pdf'' @ [39]
                            @ U '' was provided. You may not be able to read it directly, ''
                            @ U ''but you can still respond based on the description and ''
                            @ U ''prompt.]''))],
            JDict [(U ''type'', JStr (U ''text'')), (U ''text'', JStr (U ''Summarize''))]]"
    by (simp add: build_content_def pdf_file_def dict_get_def startswith_def U_simps)
  obtain c where c: "build_content file_env (U ''Summarize'') (Some pdf_file) = Inr c"
    using e by blast
  from prompt_block_is_last [of file_env "U ''Summarize''" "Some pdf_file"] c
  have "last c = JDict [(U ''type'', JStr (U ''text'')), (U ''text'', JStr (U ''Summarize''))]"
    by blast
  with c have l: "last (projr (build_content file_env (U ''Summarize'') (Some pdf_file)))
     = JDict [(U ''type'', JStr (U ''text'')), (U ''text'', JStr (U ''Summarize''))]"
    by simp
  have n: "build_content file_env (U ''Hello'') None
     = Inr [JDict [(U ''type'', JStr (U ''text'')), (U ''text'', JStr (U ''Hello''))]]"
    using prompt_block_is_last [of file_env "U ''Hello''" None] by blast
  from e l n show ?thesis by blast
qed

text \<open>
  Claim C4. For an attachment (a non-empty dict with the key \<open>mime_type\<close>), followed in
  each case by the block \<open>{"type": "text", "text": prompt}\<close>: an \<open>image/*\<close> attachment
  gives the one block
  \<open>{"type": "image_url", "image_url": {"url": "data:<mime>;base64,<data>"}}\<close>, whatever
  the decoders of the environment do; a \<open>text/*\<close> attachment gives no block when
  \<open>base64.b64decode\<close> raises or when every code point of the decoded text is white space
  (the empty text included), and otherwise the one block
  \<open>{"type": "text", "text": "(Contents of <filename>):\n\n<decoded text>"}\<close>, where the
  decoded text of the UTF-8 encoding of a text is that text; every other MIME type gives
  the note block, whose text names the file and the MIME type.
\<close>

theorem attachment_block_by_mime_category:
  assumes "fd \<noteq> []" and "map_of fd (U ''mime_type'') = Some mime"
  shows
    "(startswith mime (U ''image/'') \<longrightarrow>
        build_content x prompt (Some fd)
          = Inr [JDict [(U ''type'', JStr (U ''image_url'')),
                        (U ''image_url'',
                         JDict [(U ''url'',
                                 JStr (U ''data:'' @ mime @ U '';base64,''
                                         @ dict_get fd (U ''data'') []))])],
                 JDict [(U ''type'', JStr (U ''text'')), (U ''text'', JStr prompt)]])
     \<and> (startswith mime (U ''text/'') \<and> b64decode x (dict_get fd (U ''data'') []) = None \<longrightarrow>
          build_content x prompt (Some fd)
            = Inr [JDict [(U ''type'', JStr (U ''text'')), (U ''text'', JStr prompt)]])
     \<and> (\<forall>raw. startswith mime (U ''text/'') \<and> b64decode x (dict_get fd (U ''data'') []) = Some raw \<longrightarrow>
          (\<exists>t. decode_utf8 Ignore raw = Inr t
             \<and> build_content x prompt (Some fd)
                 = Inr ((if \<forall>c \<in> set t. isspace c then []
                         else [JDict [(U ''type'', JStr (U ''text'')),
                                      (U ''text'',
                                       JStr (U ''(Contents of ''
                                               @ dict_get fd (U ''filename'') (U ''input.bin'')
                                               @ U ''):'' @ [10, 10] @ t))]])
                        @ [JDict [(U ''type'', JStr (U ''text'')), (U ''text'', JStr prompt)]])))
     \<and> (\<forall>s. startswith mime (U ''text/'') \<and> (\<forall>cp \<in> set s. scalar cp)
            \<and> b64decode x (dict_get fd (U ''data'') []) = Some (encode_utf8 s) \<longrightarrow>
          build_content x prompt (Some fd)
            = Inr ((if \<forall>c \<in> set s. isspace c then []
                    else [JDict [(U ''type'', JStr (U ''text'')),
                                 (U ''text'',
                                  JStr (U ''(Contents of ''
                                          @ dict_get fd (U ''filename'') (U ''input.bin'')
                                          @ U ''):'' @ [10, 10] @ s))]])
                   @ [JDict [(U ''type'', JStr (U ''text'')), (U ''text'', JStr prompt)]]))
     \<and> (\<not> startswith mime (U ''image/'') \<and> \<not> startswith mime (U ''text/'') \<longrightarrow>
          build_content x prompt (Some fd)
            = Inr [JDict [(U ''type'', JStr (U ''text'')),
                          (U ''text'',
                           JStr (U ''[Note: A file named '' @ [39]
                                   @ dict_get fd (U ''filename'') (U ''input.bin'') @ [39]
                                   @ U '' with MIME type '' @ [39] @ mime @ [39]
                                   @ U '' was provided. You may not be able to read ''
                                   @ U ''it directly, but you ''
                                   @ U ''can still respond based on the description ''
                                   @ U ''and prompt.]''))],
                   JDict [(U ''type'', JStr (U ''text'')), (U ''text'', JStr prompt)]])"
proof (intro conjI impI allI)
  assume "startswith mime (U ''image/'')"
  with assms show "build_content x prompt (Some fd)
          = Inr [JDict [(U ''type'', JStr (U ''image_url'')),
                        (U ''image_url'',
                         JDict [(U ''url'',
                                 JStr (U ''data:'' @ mime @ U '';base64,''
                                         @ dict_get fd (U ''data'') []))])],
                 JDict [(U ''type'', JStr (U ''text'')), (U ''text'', JStr prompt)]]"
    by (rule build_content_image)
next
  assume "startswith mime (U ''text/'') \<and> b64decode x (dict_get fd (U ''data'') []) = None"
  then show "build_content x prompt (Some fd)
            = Inr [JDict [(U ''type'', JStr (U ''text'')), (U ''text'', JStr prompt)]]"
    using build_content_text [OF assms, of x prompt] by (simp add: strip_def)
next
  fix raw
  assume a: "startswith mime (U ''text/'') \<and> b64decode x (dict_get fd (U ''data'') []) = Some raw"
  obtain t where t: "decode_utf8 Ignore raw = Inr t"
    using decode_ignore_total by blast
  show "\<exists>t. decode_utf8 Ignore raw = Inr t
             \<and> build_content x prompt (Some fd)
                 = Inr ((if \<forall>c \<in> set t. isspace c then []
                         else [JDict [(U ''type'', JStr (U ''text'')),
                                      (U ''text'',
                                       JStr (U ''(Contents of ''
                                               @ dict_get fd (U ''filename'') (U ''input.bin'')
                                               @ U ''):'' @ [10, 10] @ t))]])
                        @ [JDict [(U ''type'', JStr (U ''text'')), (U ''text'', JStr prompt)]])"
    using build_content_text [OF assms, of x prompt] a t strip_empty_iff [of t]
    by (intro exI [of _ t]) (simp add: Let_def)
next
  fix s
  assume a: "startswith mime (U ''text/'') \<and> (\<forall>cp \<in> set s. scalar cp)
            \<and> b64decode x (dict_get fd (U ''data'') []) = Some (encode_utf8 s)"
  then have t: "decode_utf8 Ignore (encode_utf8 s) = Inr s"
    using decode_encode_utf8 by blast
  show "build_content x prompt (Some fd)
            = Inr ((if \<forall>c \<in> set s. isspace c then []
                    else [JDict [(U ''type'', JStr (U ''text'')),
                                 (U ''text'',
                                  JStr (U ''(Contents of ''
                                          @ dict_get fd (U ''filename'') (U ''input.bin'')
                                          @ U ''):'' @ [10, 10] @ s))]])
                   @ [JDict [(U ''type'', JStr (U ''text'')), (U ''text'', JStr prompt)]])"
    using build_content_text [OF assms, of x prompt] a t strip_empty_iff [of s]
    by (simp add: Let_def)
next
  assume "\<not> startswith mime (U ''image/'') \<and> \<not> startswith mime (U ''text/'')"
  then show "build_content x prompt (Some fd)
            = Inr [JDict [(U ''type'', JStr (U ''text'')),
                          (U ''text'',
                           JStr (U ''[Note: A file named '' @ [39]
                                   @ dict_get fd (U ''filename'') (U ''input.bin'') @ [39]
                                   @ U '' with MIME type '' @ [39] @ mime @ [39]
                                   @ U '' was provided. You may not be able to read ''
                                   @ U ''it directly, but you ''
                                   @ U ''can still respond based on the description ''
                                   @ U ''and prompt.]''))],
                   JDict [(U ''type'', JStr (U ''text'')), (U ''text'', JStr prompt)]]"
    using build_content_other [OF assms] by blast
qed

theorem attachment_block_by_mime_category_witness:
  "build_content file_env (U ''Describe'') (Some png_file)
     = Inr [JDict [(U ''type'', JStr (U ''image_url'')),
                   (U ''image_url'',
                    JDict [(U ''url'', JStr (U ''data:image/png;base64,iVBORw0=''))])],
            JDict [(U ''type'', JStr (U ''text'')), (U ''text'', JStr (U ''Describe''))]]
   \<and> build_content file_env (U ''Describe'') (Some (text_file (U ''abc'')))
     = Inr [JDict [(U ''type'', JStr (U ''text'')), (U ''text'', JStr (U ''Describe''))]]
   \<and> build_content file_env (U ''Describe'') (Some (text_file (U ''IAoJ'')))
     = Inr [JDict [(U ''type'', JStr (U ''text'')), (U ''text'', JStr (U ''Describe''))]]
   \<and> build_content file_env (U ''Describe'') (Some (text_file (U ''Y2Fmw6kg4oKs'')))
     = Inr [JDict [(U ''type'', JStr (U ''text'')),
                   (U ''text'',
                    JStr (U ''(Contents of notes.txt):'' @ [10, 10] @ U ''caf''
                            @ [233, 32, 8364]))],
            JDict [(U ''type'', JStr (U ''text'')), (U ''text'', JStr (U ''Describe''))]]
   \<and> build_content file_env (U ''Describe'') (Some pdf_file)
     = Inr [JDict [(U ''type'', JStr (U ''text'')),
                   (U ''text'',
                    JStr (U ''[Note: A file named '' @ [39] @ U ''report.pdf'' @ [39]
                            @ U '' with MIME type '' @ [39] @ U ''application/pdf'' @ [39]
                            @ U '' was provided. You may not be able to read it directly, ''
                            @ U ''but you can still respond based on the description and ''
                            @ U ''prompt.]''))],
            JDict [(U ''type'', JStr (U ''text'')), (U ''text'', JStr (U ''Describe''))]]"
proof -
  let ?p = "U ''Describe''"
  let ?P = "JDict [(U ''type'', JStr (U ''text'')), (U ''text'', JStr ?p)]"
  have png: "png_file \<noteq> []" "map_of png_file (U ''mime_type'') = Some (U ''image/png'')"
    by (simp_all add: png_file_def U_simps)
  have tf: "text_file d \<noteq> []" "map_of (text_file d) (U ''mime_type'') = Some (U ''text/plain'')"
    for d
    by (simp_all add: text_file_def U_simps)
  have pdf: "pdf_file \<noteq> []" "map_of pdf_file (U ''mime_type'') = Some (U ''application/pdf'')"
    by (simp_all add: pdf_file_def U_simps)
  have si: "startswith (U ''image/png'') (U ''image/'')"
    and st: "startswith (U ''text/plain'') (U ''text/'')"
    and sp: "\<not> startswith (U ''application/pdf'') (U ''image/'')
             \<and> \<not> startswith (U ''application/pdf'') (U ''text/'')"
    by (simp_all add: startswith_def U_simps)
  have a: "build_content file_env ?p (Some png_file)
     = Inr [JDict [(U ''type'', JStr (U ''image_url'')),
                   (U ''image_url'',
                    JDict [(U ''url'', JStr (U ''data:image/png;base64,iVBORw0=''))])], ?P]"
  proof -
    from attachment_block_by_mime_category [OF png, of file_env ?p] si
    have "build_content file_env ?p (Some png_file)
          = Inr [JDict [(U ''type'', JStr (U ''image_url'')),
                        (U ''image_url'',
                         JDict [(U ''url'',
                                 JStr (U ''data:'' @ U ''image/png'' @ U '';base64,''
                                         @ dict_get png_file (U ''data'') []))])], ?P]"
      by blast
    then show ?thesis
      by (simp add: dict_get_def png_file_def U_simps)
  qed
  have b: "build_content file_env ?p (Some (text_file (U ''abc''))) = Inr [?P]"
  proof -
    have "b64decode file_env (dict_get (text_file (U ''abc'')) (U ''data'') []) = None"
      by (simp add: file_eval)
    with attachment_block_by_mime_category [OF tf [of "U ''abc''"], of file_env ?p] st
    show ?thesis by blast
  qed
  have c: "build_content file_env ?p (Some (text_file (U ''IAoJ''))) = Inr [?P]"
  proof -
    have "b64decode file_env (dict_get (text_file (U ''IAoJ'')) (U ''data'') [])
            = Some [CHR '' '', CHR 0x0A, CHR 0x09]"
      by (simp add: file_eval)
    with attachment_block_by_mime_category [OF tf [of "U ''IAoJ''"], of file_env ?p] st
    obtain t where t: "decode_utf8 Ignore [CHR '' '', CHR 0x0A, CHR 0x09] = Inr t"
      and r: "build_content file_env ?p (Some (text_file (U ''IAoJ'')))
                = Inr ((if \<forall>c \<in> set t. isspace c then []
                        else [JDict [(U ''type'', JStr (U ''text'')),
                                     (U ''text'',
                                      JStr (U ''(Contents of ''
                                              @ dict_get (text_file (U ''IAoJ''))
                                                  (U ''filename'') (U ''input.bin'')
                                              @ U ''):'' @ [10, 10] @ t))]])
                       @ [?P])"
      by blast
    have "decode_utf8 Ignore [CHR '' '', CHR 0x0A, CHR 0x09] = Inr [32, 10, 9]"
      by (simp add: decode_utf8_def)
    with t have "t = [32, 10, 9]" by simp
    with r show ?thesis by (simp add: isspace_def)
  qed
  have d: "build_content file_env ?p (Some (text_file (U ''Y2Fmw6kg4oKs'')))
     = Inr [JDict [(U ''type'', JStr (U ''text'')),
                   (U ''text'',
                    JStr (U ''(Contents of notes.txt):'' @ [10, 10] @ U ''caf''
                            @ [233, 32, 8364]))], ?P]"
  proof -
    let ?raw = "[CHR ''c'', CHR ''a'', CHR ''f'', CHR 0xC3, CHR 0xA9, CHR '' '',
                 CHR 0xE2, CHR 0x82, CHR 0xAC]"
    have "b64decode file_env (dict_get (text_file (U ''Y2Fmw6kg4oKs'')) (U ''data'') [])
            = Some ?raw"
      by (simp add: file_eval)
    with attachment_block_by_mime_category [OF tf [of "U ''Y2Fmw6kg4oKs''"], of file_env ?p] st
    obtain t where t: "decode_utf8 Ignore ?raw = Inr t"
      and r: "build_content file_env ?p (Some (text_file (U ''Y2Fmw6kg4oKs'')))
                = Inr ((if \<forall>c \<in> set t. isspace c then []
                        else [JDict [(U ''type'', JStr (U ''text'')),
                                     (U ''text'',
                                      JStr (U ''(Contents of ''
                                              @ dict_get (text_file (U ''Y2Fmw6kg4oKs''))
                                                  (U ''filename'') (U ''input.bin'')
                                              @ U ''):'' @ [10, 10] @ t))]])
                       @ [?P])"
      by blast
    have "decode_utf8 Ignore ?raw = Inr [99, 97, 102, 233, 32, 8364]"
      by (simp add: decode_utf8_def cont_def second_ok_def)
    with t have "t = [99, 97, 102, 233, 32, 8364]" by simp
    with r show ?thesis
      by (simp add: isspace_def dict_get_def text_file_def U_simps)
  qed
  have e: "build_content file_env ?p (Some pdf_file)
     = Inr [JDict [(U ''type'', JStr (U ''text'')),
                   (U ''text'',
                    JStr (U ''[Note: A file named '' @ [39] @ U ''report.pdf'' @ [39]
                            @ U '' with MIME type '' @ [39] @ U ''application/pdf'' @ [39]
                            @ U '' was provided. You may not be able to read it directly, ''
                            @ U ''but you can still respond based on the description and ''
                            @ U ''prompt.]''))], ?P]"
  proof -
    from attachment_block_by_mime_category [OF pdf, of file_env ?p] sp
    have "build_content file_env ?p (Some pdf_file)
            = Inr [JDict [(U ''type'', JStr (U ''text'')),
                          (U ''text'',
                           JStr (U ''[Note: A file named '' @ [39]
                                   @ dict_get pdf_file (U ''filename'') (U ''input.bin'') @ [39]
                                   @ U '' with MIME type '' @ [39] @ U ''application/pdf'' @ [39]
                                   @ U '' was provided. You may not be able to read ''
                                   @ U ''it directly, but you ''
                                   @ U ''can still respond based on the description ''
                                   @ U ''and prompt.]''))], ?P]"
      by blast
    then show ?thesis
      by (simp add: dict_get_def pdf_file_def U_simps)
  qed
  from a b c d e show ?thesis by blast
qed



subsection \<open>Streaming\<close>

text \<open>
  Claim C7. When the generator of \<open>stream\<close> returns without an exception, the message
  about missing chunks is given to \<open>logger.error\<close> exactly when no chunk was yielded, and
  nothing is logged when an exception ends it. It does return without exception, with no
  chunk and with the message logged, when the connection closes before any line and when
  the first line is the end marker \<open>data: [DONE]\<close>.
\<close>

theorem empty_stream_is_logged:
  "(raised (stream x self prompt si fd) = None \<longrightarrow>
      logged (stream x self prompt si fd)
        = (if chunks (stream x self prompt si fd) = [] then [no_chunks_message] else []))
   \<and> (raised (stream x self prompt si fd) \<noteq> None \<longrightarrow> logged (stream x self prompt si fd) = [])
   \<and> (\<forall>pl r. build_payload x self prompt si fd True = Inr pl
          \<and> (\<forall>req. post x req = Returned r) \<and> resp_ok r
          \<and> (resp_iter_lines r = [] \<or> (\<exists>rest. resp_iter_lines r = Line ''data: [DONE]'' # rest))
        \<longrightarrow> raised (stream x self prompt si fd) = None
          \<and> chunks (stream x self prompt si fd) = []
          \<and> logged (stream x self prompt si fd) = [no_chunks_message])"
proof (intro conjI impI allI)
  assume n: "raised (stream x self prompt si fd) = None"
  show "logged (stream x self prompt si fd)
        = (if chunks (stream x self prompt si fd) = [] then [no_chunks_message] else [])"
  proof (cases "build_payload x self prompt si fd True")
    case (Inl e)
    with n show ?thesis by (simp add: stream_def)
  next
    case (Inr pl)
    let ?req = "\<lparr>url = OPENAI_URL x, headers = build_headers self, data = JDict pl,
                   stream_arg = True\<rparr>"
    show ?thesis
    proof (cases "post x ?req")
      case (Raised m)
      with n Inr show ?thesis by (simp add: stream_def Let_def)
    next
      case (Returned r)
      show ?thesis
      proof (cases "resp_ok r")
        case False
        with n Inr Returned show ?thesis by (simp add: stream_def Let_def)
      next
        case True
        obtain s e where l: "lines_loop x (resp_iter_lines r)
                               \<lparr>chunks_received = 0, yielded = []\<rparr> = (s, e)"
          by (cases "lines_loop x (resp_iter_lines r) \<lparr>chunks_received = 0, yielded = []\<rparr>")
        have c: "chunks_received s = length (yielded s)"
          using lines_loop_count [OF _ l] by simp
        note f = stream_cases [OF Inr Returned True l]
        from n f(2) have "e = None" by simp
        with f c show ?thesis by simp
      qed
    qed
  qed
next
  assume "raised (stream x self prompt si fd) \<noteq> None"
  then show "logged (stream x self prompt si fd) = []"
    by (auto simp: stream_def Let_def
             split: sum.splits post_outcome.splits if_splits prod.splits option.splits)
next
  fix pl r
  assume a: "build_payload x self prompt si fd True = Inr pl
          \<and> (\<forall>req. post x req = Returned r) \<and> resp_ok r
          \<and> (resp_iter_lines r = [] \<or> (\<exists>rest. resp_iter_lines r = Line ''data: [DONE]'' # rest))"
  have d: "decode_utf8 Strict ''data: [DONE]'' = Inr (U ''data: [DONE]'')"
    by (simp add: decode_utf8_def U_simps)
  have l: "lines_loop x (resp_iter_lines r) \<lparr>chunks_received = 0, yielded = []\<rparr>
             = (\<lparr>chunks_received = 0, yielded = []\<rparr>, None)"
    using a d by (auto simp: startswith_def U_simps)
  have p: "post x \<lparr>url = OPENAI_URL x, headers = build_headers self, data = JDict pl,
                   stream_arg = True\<rparr> = Returned r"
    using a by blast
  from a have b: "build_payload x self prompt si fd True = Inr pl" and k: "resp_ok r"
    by blast+
  note f = stream_cases [OF b p k l]
  from f show "raised (stream x self prompt si fd) = None"
    and "chunks (stream x self prompt si fd) = []"
    and "logged (stream x self prompt si fd) = [no_chunks_message]"
    by simp_all
qed


theorem empty_stream_is_logged_witness:
  "raised (stream (ext_of (Returned (streaming_response [Line ''data: [DONE]''])) None)
             gpt4o_provider (U ''hi'') None None) = None
   \<and> chunks (stream (ext_of (Returned (streaming_response [Line ''data: [DONE]''])) None)
             gpt4o_provider (U ''hi'') None None) = []
   \<and> logged (stream (ext_of (Returned (streaming_response [Line ''data: [DONE]''])) None)
             gpt4o_provider (U ''hi'') None None) = [no_chunks_message]
   \<and> logged (stream (ext_of (Returned (streaming_response [])) None)
             gpt4o_provider (U ''hi'') None None) = [no_chunks_message]"
proof -
  let ?x = "ext_of (Returned (streaming_response [Line ''data: [DONE]''])) None"
  let ?y = "ext_of (Returned (streaming_response [])) None"
  obtain pl where pl: "build_payload ?x gpt4o_provider (U ''hi'') None None True = Inr pl"
    using gpt4o_payload_builds by blast
  obtain pl' where pl': "build_payload ?y gpt4o_provider (U ''hi'') None None True = Inr pl'"
    using gpt4o_payload_builds by blast
  have a: "raised (stream ?x gpt4o_provider (U ''hi'') None None) = None
           \<and> chunks (stream ?x gpt4o_provider (U ''hi'') None None) = []
           \<and> logged (stream ?x gpt4o_provider (U ''hi'') None None) = [no_chunks_message]"
    using empty_stream_is_logged [of ?x gpt4o_provider "U ''hi''" None None] pl
    by (simp add: ext_of_def streaming_response_def)
  have b: "logged (stream ?y gpt4o_provider (U ''hi'') None None) = [no_chunks_message]"
    using empty_stream_is_logged [of ?y gpt4o_provider "U ''hi''" None None] pl'
    by (simp add: ext_of_def streaming_response_def)
  from a b show ?thesis by blast
qed

text \<open>
  Claim C3. The claim asks that a line which is not valid UTF-8, not JSON or not of the
  delta shape be skipped. A line that is not JSON is skipped: after \<open>data: not json\<close> the
  chunk \<open>Hello\<close> of the next line is yielded. A line that is not valid UTF-8 is not: after
  the line \<open>\xff\<close> the generator raises \<open>StreamingError\<close> and the chunk of the next line is
  never yielded. The same happens for the event \<open>data: 42\<close>, whose JSON value is a number.
\<close>

theorem undecodable_line_aborts_stream:
  "chunks (stream (ext_of (Returned (streaming_response
                      [Line ''data: not json'', Line (''data: '' @ hello_json)])) None)
             gpt4o_provider (U ''hi'') None None) = [JStr (U ''Hello'')]
   \<and> raised (stream (ext_of (Returned (streaming_response
                      [Line ''data: not json'', Line (''data: '' @ hello_json)])) None)
             gpt4o_provider (U ''hi'') None None) = None
   \<and> chunks (stream (ext_of (Returned (streaming_response
                      [Line [CHR 0xFF], Line (''data: '' @ hello_json)])) None)
             gpt4o_provider (U ''hi'') None None) = []
   \<and> raised (stream (ext_of (Returned (streaming_response
                      [Line [CHR 0xFF], Line (''data: '' @ hello_json)])) None)
             gpt4o_provider (U ''hi'') None None) = Some (StreamingError UnicodeDecodeError)
   \<and> chunks (stream (ext_of (Returned (streaming_response
                      [Line ''data: 42'', Line (''data: '' @ hello_json)])) None)
             gpt4o_provider (U ''hi'') None None) = []
   \<and> raised (stream (ext_of (Returned (streaming_response
                      [Line ''data: 42'', Line (''data: '' @ hello_json)])) None)
             gpt4o_provider (U ''hi'') None None) = Some (StreamingError TypeError)"
  by (simp add: stream_eval)

subsection \<open>Failures of the HTTP call\<close>

text \<open>
  Claim C2, as stated. The claim asks for a transport error kind distinct from the API
  error kind. A refused connection and an HTTP status 500 are both reported by the same
  exception class, \<open>APIError\<close>.
\<close>

theorem transport_failure_is_api_error:
  "snd (query (ext_of (Raised (U ''Connection refused'')) None) gpt4o_provider (U ''hi'')
          None None)
     = Inl (APIError (U ''Request failed: Connection refused'') None None)
   \<and> snd (query (ext_of (Returned (error_response 500 (U ''boom''))) None) gpt4o_provider
            (U ''hi'') None None)
     = Inl (APIError (U ''OpenAI API error: boom'') (Some 500) (Some (U ''boom'')))
   \<and> exc_kind (APIError (U ''Request failed: Connection refused'') None None)
     = exc_kind (APIError (U ''OpenAI API error: boom'') (Some 500) (Some (U ''boom'')))"
  by (simp add: query_def api_error_of_def stream_eval)

text \<open>
  Claim C2, amended. Whenever the payload can be built: an exception of \<open>requests.post\<close>
  is reported, by \<open>query\<close> and by \<open>stream\<close>, as an \<open>APIError\<close> with the message
  \<open>Request failed: <cause>\<close> and neither status code nor response text; a response that is
  not \<open>ok\<close> is reported as an \<open>APIError\<close> that carries the status code and the body of the
  response unchanged, with the message \<open>OpenAI API error: <body>\<close>. No chunk is yielded in
  either case.
\<close>

theorem failures_are_api_errors:
  assumes "build_content x prompt fd = Inr content"
  shows
    "(\<forall>e. (\<forall>req. post x req = Raised e) \<longrightarrow>
        snd (query x self prompt si fd)
          = Inl (APIError (U ''Request failed: '' @ e) None None)
        \<and> raised (stream x self prompt si fd)
          = Some (APIError (U ''Request failed: '' @ e) None None)
        \<and> chunks (stream x self prompt si fd) = [])
     \<and> (\<forall>r. (\<forall>req. post x req = Returned r) \<and> \<not> resp_ok r \<longrightarrow>
        snd (query x self prompt si fd)
          = Inl (APIError (U ''OpenAI API error: '' @ resp_text r)
                   (Some (resp_status_code r)) (Some (resp_text r)))
        \<and> raised (stream x self prompt si fd)
          = Some (APIError (U ''OpenAI API error: '' @ resp_text r)
                   (Some (resp_status_code r)) (Some (resp_text r)))
        \<and> chunks (stream x self prompt si fd) = [])"
  using assms
  by (simp add: query_def stream_def build_payload_def api_error_of_def Let_def)

theorem failures_are_api_errors_witness:
  "snd (query (ext_of (Raised (U ''Connection refused'')) None) gpt4o_provider (U ''hi'')
          None None)
     = Inl (APIError (U ''Request failed: '' @ U ''Connection refused'') None None)
   \<and> raised (stream (ext_of (Returned (error_response 429 (U ''slow down''))) None)
               gpt4o_provider (U ''hi'') None None)
     = Some (APIError (U ''OpenAI API error: '' @ U ''slow down'') (Some 429)
               (Some (U ''slow down'')))"
proof -
  let ?x = "ext_of (Raised (U ''Connection refused'')) None"
  let ?y = "ext_of (Returned (error_response 429 (U ''slow down''))) None"
  have c: "build_content ?x (U ''hi'') None
             = Inr [JDict [(U ''type'', JStr (U ''text'')), (U ''text'', JStr (U ''hi''))]]"
    and d: "build_content ?y (U ''hi'') None
             = Inr [JDict [(U ''type'', JStr (U ''text'')), (U ''text'', JStr (U ''hi''))]]"
    by (simp_all add: build_content_def)
  have a: "snd (query ?x gpt4o_provider (U ''hi'') None None)
     = Inl (APIError (U ''Request failed: '' @ U ''Connection refused'') None None)"
    using failures_are_api_errors [OF c, of gpt4o_provider None]
    by (simp add: ext_of_def)
  have b: "raised (stream ?y gpt4o_provider (U ''hi'') None None)
     = Some (APIError (U ''OpenAI API error: '' @ U ''slow down'') (Some 429)
               (Some (U ''slow down'')))"
    using failures_are_api_errors [OF d, of gpt4o_provider None]
    by (simp add: ext_of_def error_response_def)
  from a b show ?thesis by blast
qed

end
